theory Spec2Isabelle
  imports Complex_Main "HOL-Library.Char_ord" "HOL-Library.List_Lexorder"
begin

section \<open>JavaScript numbers and the two numeric built-ins the page calls\<close>

text \<open>
  The page \<^verbatim>\<open>src/app/route/page.tsx\<close> reads its query parameters as strings and turns
  two of them into numbers with \<^verbatim>\<open>parseFloat\<close>; it prints them with
  \<^verbatim>\<open>toFixed(4)\<close>. A JavaScript number is an IEEE 754 double: here it is \<open>NaN\<close>, one
  of the two infinities, or \<open>Finite r\<close> with \<open>r\<close> the exact rational value of the double.
  The sign of zero is not kept (\<open>-0\<close> is \<open>Finite 0\<close>); neither built-in, as the page uses
  them, prints it. A \<open>char\<close> is one code unit of the JavaScript string; the code units
  from 256 on are outside the model.
\<close>

datatype jsnum = NaN | PosInfinity | NegInfinity | Finite rat

function bitlen :: "int \<Rightarrow> nat" where
  "bitlen n = (if n \<le> 0 then 0 else Suc (bitlen (n div 2)))"
  by pat_completeness auto
termination
  by (relation "measure nat") auto

declare bitlen.simps [simp del]

definition pow2 :: "int \<Rightarrow> rat" where
  "pow2 e = (if 0 \<le> e then 2 ^ nat e else 1 / 2 ^ nat (- e))"

definition floorLog2 :: "rat \<Rightarrow> int" where
  \<comment> \<open>for \<open>a > 0\<close>: the \<open>e\<close> with \<open>2 ^ e \<le> a < 2 ^ (e + 1)\<close>\<close>
  "floorLog2 a =
     (let p = fst (quotient_of a); q = snd (quotient_of a);
          e0 = int (bitlen p) - int (bitlen q)
      in if pow2 e0 \<le> a then e0 else e0 - 1)"

definition roundHalfEven :: "rat \<Rightarrow> int" where
  "roundHalfEven x =
     (let f = \<lfloor>x\<rfloor>; d = x - of_int f
      in if d < 1 / 2 then f else if 1 / 2 < d then f + 1 else if even f then f else f + 1)"

definition toDouble :: "rat \<Rightarrow> jsnum" where
  \<comment> \<open>round to nearest, ties to even: 53 significant bits, least exponent \<open>-1074\<close>,
      overflow to an infinity from \<open>2 ^ 1024\<close> on\<close>
  "toDouble x =
     (if x = 0 then Finite 0
      else
        let a = \<bar>x\<bar>;
            q = max (floorLog2 a - 52) (- 1074);
            v = of_int (roundHalfEven (a / pow2 q)) * pow2 q
        in if 2 ^ 1024 \<le> v then (if x < 0 then NegInfinity else PosInfinity)
           else Finite (if x < 0 then - v else v))"

subsection \<open>parseFloat\<close>

text \<open>
  \<^verbatim>\<open>parseFloat(s)\<close> drops leading white space, takes the longest prefix that is a
  \<^verbatim>\<open>StrDecimalLiteral\<close> (an optional sign, then \<^verbatim>\<open>Infinity\<close> or decimal digits with an
  optional fraction and an optional exponent), and returns its value rounded to a double,
  or \<open>NaN\<close> when no prefix is one. \<open>strDecimalPrefix\<close> returns the exact value of that
  prefix and the rest of the string.
\<close>

definition isWhiteSpace :: "char \<Rightarrow> bool" where
  \<comment> \<open>tab, line feed, vertical tab, form feed, carriage return, space and no-break space\<close>
  "isWhiteSpace c =
     (c \<in> set [CHR 0x09, CHR 0x0A, CHR 0x0B, CHR 0x0C, CHR 0x0D, CHR '' '', CHR 0xA0])"

definition isDigit :: "char \<Rightarrow> bool" where
  "isDigit c = (c \<in> set ''0123456789'')"

definition digitVal :: "char \<Rightarrow> int" where
  "digitVal c = of_char c - 48"

fun digitsValue :: "int \<Rightarrow> string \<Rightarrow> int" where
  "digitsValue acc [] = acc"
| "digitsValue acc (c # cs) = digitsValue (10 * acc + digitVal c) cs"

definition pow10 :: "int \<Rightarrow> rat" where
  "pow10 e = (if 0 \<le> e then 10 ^ nat e else 1 / 10 ^ nat (- e))"

datatype strDecimal = NoLiteral | InfinityLiteral bool string | DecimalLiteral rat string

definition exponentPart :: "string \<Rightarrow> int \<times> string" where
  \<comment> \<open>an \<^verbatim>\<open>e\<close> or \<^verbatim>\<open>E\<close>, an optional sign and at least one digit; otherwise nothing is
      consumed and the exponent is 0\<close>
  "exponentPart r =
     (case r of
        [] \<Rightarrow> (0, r)
      | c # r1 \<Rightarrow>
          if c = CHR ''e'' \<or> c = CHR ''E'' then
            (let neg = (case r1 of [] \<Rightarrow> False | d # _ \<Rightarrow> d = CHR ''-'');
                 r2 = (case r1 of [] \<Rightarrow> r1
                       | d # ds \<Rightarrow> if d = CHR ''+'' \<or> d = CHR ''-'' then ds else r1);
                 ds = takeWhile isDigit r2
             in if ds = [] then (0, r)
                else ((if neg then - digitsValue 0 ds else digitsValue 0 ds),
                      dropWhile isDigit r2))
          else (0, r))"

definition unsignedDecimal :: "string \<Rightarrow> (rat \<times> string) option" where
  "unsignedDecimal s =
     (let ip = takeWhile isDigit s; r1 = dropWhile isDigit s
      in case r1 of
           [] \<Rightarrow> if ip = [] then None else Some (of_int (digitsValue 0 ip), r1)
         | c # r2 \<Rightarrow>
             if c = CHR ''.'' then
               (let fp = takeWhile isDigit r2; r3 = dropWhile isDigit r2
                in if ip = [] \<and> fp = [] then None
                   else
                     let m = of_int (digitsValue 0 ip)
                           + of_int (digitsValue 0 fp) * pow10 (- int (length fp));
                         er = exponentPart r3
                     in Some (m * pow10 (fst er), snd er))
             else if ip = [] then None
             else
               (let er = exponentPart r1
                in Some (of_int (digitsValue 0 ip) * pow10 (fst er), snd er)))"

definition strDecimalPrefix :: "string \<Rightarrow> strDecimal" where
  "strDecimalPrefix s =
     (let neg = (case s of [] \<Rightarrow> False | c # _ \<Rightarrow> c = CHR ''-'');
          u = (case s of [] \<Rightarrow> s | c # cs \<Rightarrow> if c = CHR ''+'' \<or> c = CHR ''-'' then cs else s)
      in if take 8 u = ''Infinity'' then InfinityLiteral neg (drop 8 u)
         else case unsignedDecimal u of
                None \<Rightarrow> NoLiteral
              | Some (v, r) \<Rightarrow> DecimalLiteral (if neg then - v else v) r)"

definition parseFloat :: "string \<Rightarrow> jsnum" where
  "parseFloat s =
     (case strDecimalPrefix (dropWhile isWhiteSpace s) of
        NoLiteral \<Rightarrow> NaN
      | InfinityLiteral neg _ \<Rightarrow> (if neg then NegInfinity else PosInfinity)
      | DecimalLiteral v _ \<Rightarrow> toDouble v)"

subsection \<open>toFixed\<close>

text \<open>
  \<^verbatim>\<open>x.toFixed(f)\<close> for \<open>0 \<le> f \<le> 100\<close> (the page passes 4): a number that is not finite
  prints as \<^verbatim>\<open>NaN\<close>, \<^verbatim>\<open>Infinity\<close> or \<^verbatim>\<open>-Infinity\<close>; otherwise the sign, then, below
  \<open>10 ^ 21\<close>, the integer \<open>n\<close> nearest to \<open>x * 10 ^ f\<close> (the larger of two) with a point
  before its last \<open>f\<close> digits. From \<open>10 ^ 21\<close> on it prints as \<^verbatim>\<open>String(x)\<close> does:
  the shortest digits that read back as the same double, in exponent notation.
\<close>

definition digitChar :: "int \<Rightarrow> char" where
  "digitChar d = char_of (48 + d)"

function intDigits :: "int \<Rightarrow> string" where
  \<comment> \<open>the decimal digits of \<open>n \<ge> 0\<close>\<close>
  "intDigits n =
     (if n < 10 then [digitChar n] else intDigits (n div 10) @ [digitChar (n mod 10)])"
  by pat_completeness auto
termination
  by (relation "measure nat") auto

declare intDigits.simps [simp del]

definition shortestAt :: "rat \<Rightarrow> nat \<Rightarrow> nat \<Rightarrow> (int \<times> nat) list" where
  \<comment> \<open>the pairs \<open>(s, n)\<close> with \<open>k\<close> digits in \<open>s\<close> and \<open>s * 10 ^ (n - k)\<close> rounding to \<open>a\<close>,
      where \<open>a\<close> has \<open>nd\<close> digits before the point\<close>
  "shortestAt a nd k =
     (let lo = \<lfloor>a / 10 ^ (nd - k)\<rfloor>
      in filter (\<lambda>(s, n). 10 ^ (k - 1) \<le> s \<and> s < 10 ^ k \<and> toDouble (of_int s * 10 ^ (n - k)) = Finite a)
           ([(lo, nd), (lo + 1, nd)] @ (if k = 1 then [(1, nd + 1)] else [])))"

definition nearer :: "rat \<Rightarrow> nat \<Rightarrow> int \<times> nat \<Rightarrow> int \<times> nat \<Rightarrow> int \<times> nat" where
  "nearer a k c d =
     (if \<bar>of_int (fst d) * 10 ^ (snd d - k) - a\<bar> < \<bar>of_int (fst c) * 10 ^ (snd c - k) - a\<bar> then d else c)"

fun shortestDigits :: "rat \<Rightarrow> nat \<Rightarrow> nat list \<Rightarrow> int \<times> nat" where
  "shortestDigits a nd [] = (roundHalfEven (a / 10 ^ (nd - 17)), nd)"
| "shortestDigits a nd (k # ks) =
     (case shortestAt a nd k of
        [] \<Rightarrow> shortestDigits a nd ks
      | c # cs \<Rightarrow> foldl (nearer a k) c cs)"

definition numberToString :: "rat \<Rightarrow> string" where
  \<comment> \<open>\<^verbatim>\<open>String(a)\<close> for a double \<open>a \<ge> 10 ^ 21\<close>\<close>
  "numberToString a =
     (let nd = length (intDigits \<lfloor>a\<rfloor>);
          sn = shortestDigits a nd [1 ..< 18];
          ds = intDigits (fst sn)
      in (if length ds = 1 then ds else take 1 ds @ ''.'' @ drop 1 ds)
         @ ''e+'' @ intDigits (int (snd sn) - 1))"

definition zeroPad :: "nat \<Rightarrow> string \<Rightarrow> string" where
  \<comment> \<open>digits of length at most \<open>f\<close> get zeros in front, up to length \<open>f + 1\<close>\<close>
  "zeroPad f m = (if length m \<le> f then replicate (f + 1 - length m) (CHR ''0'') @ m else m)"

definition toFixed :: "nat \<Rightarrow> jsnum \<Rightarrow> string" where
  "toFixed f x =
     (case x of
        NaN \<Rightarrow> ''NaN''
      | PosInfinity \<Rightarrow> ''Infinity''
      | NegInfinity \<Rightarrow> ''-Infinity''
      | Finite r \<Rightarrow>
          (let s = (if r < 0 then ''-'' else ''''); a = \<bar>r\<bar>
           in if 10 ^ 21 \<le> a then s @ numberToString a
              else
                let m = zeroPad f (intDigits \<lfloor>a * 10 ^ f + 1 / 2\<rfloor>)
                in if f = 0 then s @ m
                   else s @ take (length m - f) m @ ''.'' @ drop (length m - f) m))"

section \<open>The data of the page\<close>

text \<open>
  The types \<^verbatim>\<open>Hospital\<close>, \<^verbatim>\<open>RouteInfo\<close>, \<^verbatim>\<open>UserLocation\<close> and \<^verbatim>\<open>EmergencyCategory\<close> are
  imported from \<^verbatim>\<open>@/lib/types\<close>; their fields are read off the object literals and the
  uses in \<^verbatim>\<open>page.tsx\<close>. A field the page tests before use (\<^verbatim>\<open>phone\<close>, the hospital's
  coordinates, \<^verbatim>\<open>trafficStatus\<close>) is optional; a coordinate of the user's location is a
  number or \<^verbatim>\<open>null\<close>. An emergency category is the string of the query parameter. Field
  names shared by two types carry the type's initial: \<open>h_id\<close> is \<^verbatim>\<open>Hospital.id\<close>, \<open>r_id\<close>
  is \<^verbatim>\<open>RouteInfo.id\<close>.
\<close>

record Hospital =
  h_id :: string
  name :: string
  h_address :: string
  phone :: "string option"
  h_latitude :: "jsnum option"
  h_longitude :: "jsnum option"

record RouteInfo =
  r_id :: string
  hospital :: Hospital
  distance :: string
  time :: string
  trafficStatus :: "string option"
  isPrimary :: bool

record UserLocation =
  latitude :: "jsnum option"
  longitude :: "jsnum option"
  address :: string

type_synonym EmergencyCategory = string

text \<open>A number literal of the source is the double nearest to its decimal value.\<close>

definition SIMULATED_HOSPITALS :: "Hospital list" where
  "SIMULATED_HOSPITALS =
     [\<lparr>h_id = ''hosp1'', name = ''City General Hospital'',
       h_address = ''123 Main St, Cityville'', phone = Some ''555-1234'',
       h_latitude = Some (toDouble (340522 / 10000)),
       h_longitude = Some (toDouble (- (1182437 / 10000)))\<rparr>,
      \<lparr>h_id = ''hosp2'', name = ''St. Luke's Medical Center'',
       h_address = ''456 Oak Ave, Cityville'', phone = Some ''555-5678'',
       h_latitude = Some (toDouble (340580 / 10000)),
       h_longitude = Some (toDouble (- (1182500 / 10000)))\<rparr>,
      \<lparr>h_id = ''hosp3'', name = ''County Urgent Care'',
       h_address = ''789 Pine Rd, Suburbia'', phone = Some ''555-9101'',
       h_latitude = Some (toDouble (340450 / 10000)),
       h_longitude = Some (toDouble (- (1182300 / 10000)))\<rparr>]"

text \<open>
  \<^verbatim>\<open>simulateRouteCalculation\<close> waits 1500 ms and resolves to a list written out in its
  body; it reads neither argument and cannot reject. The delay is the time between the
  call and the \<open>TimerFires\<close> event of the page's event model below.
\<close>

definition simulateRouteCalculation :: "UserLocation \<Rightarrow> EmergencyCategory \<Rightarrow> RouteInfo list" where
  "simulateRouteCalculation location emergencyType =
     [\<lparr>r_id = ''route1'', hospital = SIMULATED_HOSPITALS ! 0, distance = ''3.2 km'',
       time = ''8 mins'', trafficStatus = Some ''Light traffic'', isPrimary = True\<rparr>,
      \<lparr>r_id = ''route2'', hospital = SIMULATED_HOSPITALS ! 1, distance = ''4.1 km'',
       time = ''10 mins'', trafficStatus = Some ''Moderate traffic'', isPrimary = False\<rparr>,
      \<lparr>r_id = ''route3'', hospital = SIMULATED_HOSPITALS ! 2, distance = ''5.5 km'',
       time = ''12 mins'', trafficStatus = Some ''Light traffic'', isPrimary = False\<rparr>]"

section \<open>The state of \<^verbatim>\<open>RoutePage\<close> and its effect\<close>

text \<open>
  The component holds five state variables; \<open>toasts\<close> is the list of the toasts shown so
  far, the visible effect of \<^verbatim>\<open>toast(...)\<close>. \<^verbatim>\<open>console.error\<close> is left out.
\<close>

record Toast =
  title :: string
  description :: string
  variant :: "string option"

record PageState =
  routes :: "RouteInfo list"
  isLoading :: bool
  error :: "string option"
  userLocation :: "UserLocation option"
  emergencyType :: "EmergencyCategory option"
  toasts :: "Toast list"

definition initialState :: PageState where
  "initialState =
     \<lparr>routes = [], isLoading = True, error = None, userLocation = None,
      emergencyType = None, toasts = []\<rparr>"

definition toast :: "Toast \<Rightarrow> PageState \<Rightarrow> PageState" where
  "toast t st = st\<lparr>toasts := toasts st @ [t]\<rparr>"

text \<open>
  \<^verbatim>\<open>searchParams.get(k)\<close> is the first value of the key, or \<^verbatim>\<open>null\<close>. A string or
  \<^verbatim>\<open>null\<close> is truthy when it is a non-empty string: \<open>truthy\<close> keeps such a string and
  maps everything else to \<open>None\<close>.
\<close>

type_synonym SearchParams = "(string \<times> string) list"

definition searchParams_get :: "SearchParams \<Rightarrow> string \<Rightarrow> string option" where
  "searchParams_get sp k = map_of sp k"

definition truthy :: "string option \<Rightarrow> string option" where
  "truthy v = (case v of None \<Rightarrow> None | Some s \<Rightarrow> if s = [] then None else Some s)"

text \<open>
  Lines 86 to 91, the value of the variable \<^verbatim>\<open>locationData\<close> from the three raw
  parameters: coordinates when \<^verbatim>\<open>lat && lng\<close>, else the address when it is truthy, else
  \<^verbatim>\<open>null\<close>.
\<close>

definition locationData :: "string option \<Rightarrow> string option \<Rightarrow> string option \<Rightarrow> UserLocation option" where
  "locationData lat lng addr =
     (case (truthy lat, truthy lng) of
        (Some la, Some lo) \<Rightarrow>
          Some \<lparr>latitude = Some (parseFloat la), longitude = Some (parseFloat lo),
                address =
                  (case truthy addr of
                     Some a \<Rightarrow> a
                   | None \<Rightarrow> ''Coords: '' @ toFixed 4 (parseFloat la) @ '', ''
                              @ toFixed 4 (parseFloat lo))\<rparr>
      | _ \<Rightarrow>
          (case truthy addr of
             Some a \<Rightarrow> Some \<lparr>latitude = None, longitude = None, address = a\<rparr>
           | None \<Rightarrow> None))"

text \<open>
  \<^verbatim>\<open>fetchRoutes\<close> is asynchronous. \<open>fetchRoutes_begin\<close> is what it does before the
  \<^verbatim>\<open>await\<close>; \<open>fetchRoutes_end\<close> is what it does once the awaited promise has settled,
  with \<open>Inr\<close> the routes it resolved to and \<open>Inl\<close> the error it rejected with: the
  \<^verbatim>\<open>try\<close> block, the \<^verbatim>\<open>catch\<close> block and the \<^verbatim>\<open>finally\<close> block.
\<close>

datatype jsError = JsError string

definition fetchRoutes_begin :: "PageState \<Rightarrow> PageState" where
  "fetchRoutes_begin st = st\<lparr>isLoading := True, error := None\<rparr>"

definition fetchRoutes_end :: "jsError + RouteInfo list \<Rightarrow> PageState \<Rightarrow> PageState" where
  "fetchRoutes_end settled st =
     (case settled of
        Inr calculatedRoutes \<Rightarrow>
          (if length calculatedRoutes = 0 then
             toast \<lparr>title = ''No Routes'',
                    description = ''Could not find routes. Try expanding search or checking location.'',
                    variant = Some ''destructive''\<rparr>
               (st\<lparr>error := Some ''Could not find any nearby medical facilities or routes.''\<rparr>)
           else st)
          \<lparr>routes := calculatedRoutes, isLoading := False\<rparr>
      | Inl err \<Rightarrow>
          (toast \<lparr>title = ''Routing Error'', description = ''Failed to calculate routes.'',
                  variant = Some ''destructive''\<rparr>
             (st\<lparr>error := Some ''Failed to calculate routes. Please try again later.''\<rparr>))
          \<lparr>isLoading := False\<rparr>)"

text \<open>
  The effect of lines 72 to 121, up to the \<^verbatim>\<open>await\<close>: the new state, and the arguments
  of the call to \<^verbatim>\<open>simulateRouteCalculation\<close> it has started, if it has started one.
\<close>

type_synonym Call = "UserLocation \<times> EmergencyCategory"

definition effect :: "SearchParams \<Rightarrow> PageState \<Rightarrow> PageState \<times> Call option" where
  "effect searchParams st =
     (let lat = searchParams_get searchParams ''lat'';
          lng = searchParams_get searchParams ''lng'';
          addr = searchParams_get searchParams ''address''
      in case truthy (searchParams_get searchParams ''emergencyType'') of
           None \<Rightarrow>
             (toast \<lparr>title = ''Error'', description = ''Emergency type missing. Please go back.'',
                     variant = Some ''destructive''\<rparr>
                (st\<lparr>error := Some ''Emergency type is missing.'', isLoading := False\<rparr>),
              None)
         | Some ty \<Rightarrow>
             (let st1 = st\<lparr>emergencyType := Some ty\<rparr>
              in case locationData lat lng addr of
                   None \<Rightarrow>
                     (toast \<lparr>title = ''Error'', description = ''Location missing. Please go back.'',
                             variant = Some ''destructive''\<rparr>
                        (st1\<lparr>error := Some ''User location is missing.'', isLoading := False\<rparr>),
                      None)
                 | Some loc \<Rightarrow>
                     (fetchRoutes_begin (st1\<lparr>userLocation := Some loc\<rparr>), Some (loc, ty))))"

text \<open>
  The event loop. \<open>Navigate sp\<close>: the search parameters become \<open>sp\<close> (the first one is the
  mount) and the effect runs. \<open>TimerFires\<close>: the oldest pending call resolves and its
  \<^verbatim>\<open>fetchRoutes\<close> continues; the calls resolve in the order they were made, each 1500 ms
  after it was made. The effect has no cleanup, so nothing is ever cancelled.
\<close>

datatype Event = Navigate SearchParams | TimerFires

record Sys =
  page :: PageState
  pendingCalls :: "Call list"

fun step :: "Sys \<Rightarrow> Event \<Rightarrow> Sys" where
  "step s (Navigate sp) =
     (case effect sp (page s) of
        (st, c) \<Rightarrow>
          \<lparr>page = st,
           pendingCalls = pendingCalls s @ (case c of None \<Rightarrow> [] | Some x \<Rightarrow> [x])\<rparr>)"
| "step s TimerFires =
     (case pendingCalls s of
        [] \<Rightarrow> s
      | (loc, ty) # cs \<Rightarrow>
          \<lparr>page = fetchRoutes_end (Inr (simulateRouteCalculation loc ty)) (page s),
           pendingCalls = cs\<rparr>)"

definition run :: "Event list \<Rightarrow> Sys" where
  "run evs = foldl step \<lparr>page = initialState, pendingCalls = []\<rparr> evs"

text \<open>
  What the component renders (lines 123, 124 and 147 to 274): the spinner while loading,
  else the error screen when \<^verbatim>\<open>error\<close> is truthy, else the routes, with
  \<^verbatim>\<open>primaryRoute\<close> and \<^verbatim>\<open>alternativeRoutes\<close>. A card shows the time, the distance and the
  traffic status of a route as the strings they are.
\<close>

datatype View = LoadingView | ErrorView string | RoutesView "RouteInfo option" "RouteInfo list"

definition primaryRoute :: "PageState \<Rightarrow> RouteInfo option" where
  "primaryRoute st = find isPrimary (routes st)"

definition alternativeRoutes :: "PageState \<Rightarrow> RouteInfo list" where
  "alternativeRoutes st = filter (\<lambda>r. \<not> isPrimary r) (routes st)"

definition render :: "PageState \<Rightarrow> View" where
  "render st =
     (if isLoading st then LoadingView
      else case truthy (error st) of
             Some e \<Rightarrow> ErrorView e
           | None \<Rightarrow> RoutesView (primaryRoute st) (alternativeRoutes st))"

record Card =
  estTime :: string
  cardDistance :: string
  traffic :: string

definition primaryCard :: "RouteInfo \<Rightarrow> Card" where
  "primaryCard r =
     \<lparr>estTime = time r, cardDistance = distance r,
      traffic = (case truthy (trafficStatus r) of Some s \<Rightarrow> s | None \<Rightarrow> ''Not available'')\<rparr>"

definition alternativeCard :: "RouteInfo \<Rightarrow> Card" where
  "alternativeCard r =
     \<lparr>estTime = time r, cardDistance = distance r,
      traffic = (case truthy (trafficStatus r) of Some s \<Rightarrow> s | None \<Rightarrow> ''N/A'')\<rparr>"

section \<open>The specification's vocabulary\<close>

text \<open>
  The specification speaks of a duration in seconds, a distance in metres, a ranking and
  a location with valid coordinates. The definitions of this section follow its words;
  the theorems compare them with the code.
\<close>

text \<open>
  The quantity a display string such as \<^verbatim>\<open>3.2 km\<close> states: a decimal numeral, one space
  and the unit.
\<close>

definition readQuantity :: "string \<Rightarrow> string \<Rightarrow> rat option" where
  "readQuantity unit s =
     (case strDecimalPrefix s of
        DecimalLiteral v r \<Rightarrow> if r = '' '' @ unit then Some v else None
      | _ \<Rightarrow> None)"

definition distanceMeters :: "RouteInfo \<Rightarrow> rat option" where
  "distanceMeters r = map_option (\<lambda>km. 1000 * km) (readQuantity ''km'' (distance r))"

definition durationSeconds :: "RouteInfo \<Rightarrow> rat option" where
  "durationSeconds r = map_option (\<lambda>m. 60 * m) (readQuantity ''mins'' (time r))"



text \<open>
  A field that holds a bare non-negative number, with no unit after it: what a distance
  in metres or a duration in seconds would be.
\<close>

definition bareNumber :: "string \<Rightarrow> bool" where
  "bareNumber s = (case strDecimalPrefix s of DecimalLiteral v r \<Rightarrow> r = [] \<and> 0 \<le> v | _ \<Rightarrow> False)"

definition carriesSIValues :: "RouteInfo \<Rightarrow> bool" where
  "carriesSIValues r = (bareNumber (distance r) \<and> bareNumber (time r))"

text \<open>
  The numeral of \<open>x\<close> rounded to 4 decimal places (a tie goes away from zero): the sign,
  the integer part, the point and four digits.
\<close>

definition roundedTo4 :: "rat \<Rightarrow> string" where
  "roundedTo4 x =
     (let n = \<lfloor>\<bar>x\<bar> * 10000 + 1 / 2\<rfloor>
      in (if x < 0 then ''-'' else []) @ intDigits (n div 10000) @ ''.''
         @ [digitChar (n div 1000 mod 10), digitChar (n div 100 mod 10),
            digitChar (n div 10 mod 10), digitChar (n mod 10)])"

text \<open>
  The invariant of a \<open>Location\<close> (section 3): coordinates, when present, are both present,
  finite and within \<open>[-90, 90]\<close> and \<open>[-180, 180]\<close>.
\<close>

definition inRange :: "rat \<Rightarrow> rat \<Rightarrow> jsnum \<Rightarrow> bool" where
  "inRange lo hi x = (case x of Finite r \<Rightarrow> lo \<le> r \<and> r \<le> hi | _ \<Rightarrow> False)"

definition validCoordinates :: "UserLocation \<Rightarrow> bool" where
  "validCoordinates loc =
     (case (latitude loc, longitude loc) of
        (Some la, Some lo) \<Rightarrow> inRange (- 90) 90 la \<and> inRange (- 180) 180 lo
      | (None, None) \<Rightarrow> True
      | _ \<Rightarrow> False)"

text \<open>
  The request of the end-to-end scenario (section 8, property 7), and two requests
  submitted one after the other.
\<close>

definition cardiacRequest :: SearchParams where
  "cardiacRequest = [(''lat'', ''34.0522''), (''lng'', ''-118.2437''), (''emergencyType'', ''cardiac'')]"

definition firstRequest :: SearchParams where
  "firstRequest = [(''address'', ''12 Hill Rd''), (''emergencyType'', ''cardiac'')]"

definition secondRequest :: SearchParams where
  "secondRequest = [(''address'', ''99 Lake St''), (''emergencyType'', ''trauma'')]"

text \<open>
  The routes a page state can hold: none, or the list \<^verbatim>\<open>simulateRouteCalculation\<close>
  returns.
\<close>

definition routes_inv :: "Sys \<Rightarrow> bool" where
  "routes_inv s =
     (routes (page s) = []
      \<or> routes (page s) = simulateRouteCalculation \<lparr>latitude = None, longitude = None, address = []\<rparr> [])"

section \<open>Facts about the built-ins\<close>

lemma digitChar_0: "digitChar 0 = CHR ''0''"
  by code_simp

lemma intDigits_small: "n < 10 \<Longrightarrow> intDigits n = [digitChar n]"
  by (simp add: intDigits.simps)

lemma intDigits_large: "10 \<le> n \<Longrightarrow> intDigits n = intDigits (n div 10) @ [digitChar (n mod 10)]"
  by (subst intDigits.simps) simp

lemma intDigits_nonempty: "intDigits n \<noteq> []"
  by (subst intDigits.simps) simp

lemma intDigits_0: "intDigits 0 = ''0''"
  by (simp add: intDigits_small digitChar_0)

lemma div10_div10: "(n::int) div 10 div 10 = n div 100"
  and div100_div10: "(n::int) div 100 div 10 = n div 1000"
  and div1000_div10: "(n::int) div 1000 div 10 = n div 10000"
  by (simp_all add: zdiv_zmult2_eq [symmetric])

lemma intDigits_split4:
  assumes "10000 \<le> n"
  shows "intDigits n = intDigits (n div 10000)
           @ [digitChar (n div 1000 mod 10), digitChar (n div 100 mod 10),
              digitChar (n div 10 mod 10), digitChar (n mod 10)]"
proof -
  have a: "intDigits n = intDigits (n div 10) @ [digitChar (n mod 10)]"
    using assms by (intro intDigits_large) simp
  have b: "intDigits (n div 10) = intDigits (n div 100) @ [digitChar (n div 10 mod 10)]"
    using assms intDigits_large [of "n div 10"] by (simp add: div10_div10)
  have c: "intDigits (n div 100) = intDigits (n div 1000) @ [digitChar (n div 100 mod 10)]"
    using assms intDigits_large [of "n div 100"] by (simp add: div100_div10)
  have d: "intDigits (n div 1000) = intDigits (n div 10000) @ [digitChar (n div 1000 mod 10)]"
    using assms intDigits_large [of "n div 1000"] by (simp add: div1000_div10)
  show ?thesis by (simp add: a b c d)
qed

text \<open>
  The digits \<^verbatim>\<open>toFixed(4)\<close> puts before and after the point are the integer part and the
  four decimals of \<open>n / 10000\<close>.
\<close>

lemma fixed_digits:
  assumes "0 \<le> n"
  shows "take (length (zeroPad 4 (intDigits n)) - 4) (zeroPad 4 (intDigits n)) = intDigits (n div 10000)
       \<and> drop (length (zeroPad 4 (intDigits n)) - 4) (zeroPad 4 (intDigits n))
           = [digitChar (n div 1000 mod 10), digitChar (n div 100 mod 10),
              digitChar (n div 10 mod 10), digitChar (n mod 10)]"
proof -
  consider "n < 10" | "10 \<le> n" "n < 100" | "100 \<le> n" "n < 1000"
    | "1000 \<le> n" "n < 10000" | "10000 \<le> n"
    by linarith
  then show ?thesis
  proof cases
    case 1
    then show ?thesis using assms
      by (simp add: intDigits_small zeroPad_def intDigits_0 digitChar_0 eval_nat_numeral)
  next
    case 2
    then have "intDigits n = [digitChar (n div 10), digitChar (n mod 10)]"
      by (simp add: intDigits_large intDigits_small)
    then show ?thesis using 2 assms
      by (simp add: zeroPad_def intDigits_0 digitChar_0 eval_nat_numeral)
  next
    case 3
    then have "intDigits n = [digitChar (n div 100), digitChar (n div 10 mod 10), digitChar (n mod 10)]"
      using intDigits_large [of n] intDigits_large [of "n div 10"] intDigits_small [of "n div 100"]
      by (simp add: div10_div10)
    then show ?thesis using 3 assms
      by (simp add: zeroPad_def intDigits_0 digitChar_0 eval_nat_numeral)
  next
    case 4
    then have "intDigits n = [digitChar (n div 1000), digitChar (n div 100 mod 10),
        digitChar (n div 10 mod 10), digitChar (n mod 10)]"
      using intDigits_large [of n] intDigits_large [of "n div 10"] intDigits_large [of "n div 100"]
        intDigits_small [of "n div 1000"]
      by (simp add: div10_div10 div100_div10)
    then show ?thesis using 4 assms
      by (simp add: zeroPad_def intDigits_0 digitChar_0 eval_nat_numeral)
  next
    case 5
    then show ?thesis
      using intDigits_nonempty [of "n div 10000"]
      by (simp add: intDigits_split4 zeroPad_def)
  qed
qed

lemma toFixed_4_rounded:
  assumes "\<bar>x\<bar> < 10 ^ 21"
  shows "toFixed 4 (Finite x) = roundedTo4 x"
proof -
  have n0: "0 \<le> \<lfloor>\<bar>x\<bar> * 10000 + 1 / 2\<rfloor>" by simp
  show ?thesis
    using assms fixed_digits [OF n0]
    by (simp add: toFixed_def roundedTo4_def Let_def zeroPad_def)
qed

lemma parseFloat_empty: "parseFloat [] = NaN"
  by code_simp

lemma truthy_parsed: "parseFloat s = Finite x \<Longrightarrow> truthy (Some s) = Some s"
  using parseFloat_empty by (auto simp: truthy_def)

lemma parse_lat: "parseFloat ''34.0522'' = Finite (1198105275243325 / 35184372088832)"
  by code_simp

lemma parse_lng: "parseFloat ''-118.2437'' = Finite (- (8320660675920449 / 70368744177664))"
  by code_simp

lemma rounded_lat: "roundedTo4 (1198105275243325 / 35184372088832) = ''34.0522''"
  by code_simp

lemma rounded_lng: "roundedTo4 (- (8320660675920449 / 70368744177664)) = ''-118.2437''"
  by code_simp

lemma fixed_NaN: "toFixed 4 NaN = ''NaN''"
  by (simp add: toFixed_def)

lemma parse_words: "parseFloat ''abc'' = NaN" "parseFloat ''xyz'' = NaN"
  by code_simp+

lemma parse_999: "parseFloat ''999'' = Finite 999" "parseFloat ''-999'' = Finite (- 999)"
  by code_simp+

lemma fixed_999: "toFixed 4 (Finite 999) = ''999.0000''" "toFixed 4 (Finite (- 999)) = ''-999.0000''"
  by code_simp+

section \<open>Reading the display strings of the routes\<close>

lemma read_km: "readQuantity ''km'' ''3.2 km'' = Some (16 / 5)"
  "readQuantity ''km'' ''4.1 km'' = Some (41 / 10)"
  "readQuantity ''km'' ''5.5 km'' = Some (11 / 2)"
  by code_simp+

lemma read_mins: "readQuantity ''mins'' ''8 mins'' = Some 8"
  "readQuantity ''mins'' ''10 mins'' = Some 10"
  "readQuantity ''mins'' ''12 mins'' = Some 12"
  by code_simp+

lemma not_bare: "bareNumber ''3.2 km'' = False" "bareNumber ''8 mins'' = False"
  by code_simp+



section \<open>The routes a page can hold\<close>

lemma routes_effect: "routes (fst (effect sp st)) = routes st"
  by (simp add: effect_def toast_def fetchRoutes_begin_def Let_def split: option.splits)

lemma routes_fetchRoutes_end_Inr: "routes (fetchRoutes_end (Inr rs) st) = rs"
  by (simp add: fetchRoutes_end_def toast_def)

lemma routes_inv_step: "routes_inv s \<Longrightarrow> routes_inv (step s e)"
proof (cases e)
  case (Navigate sp)
  assume "routes_inv s"
  moreover have "routes (page (step s (Navigate sp))) = routes (page s)"
    using routes_effect [of sp "page s"] by (cases "effect sp (page s)") simp
  ultimately show ?thesis using Navigate by (simp add: routes_inv_def)
next
  case TimerFires
  assume "routes_inv s"
  then show ?thesis using TimerFires
    by (cases "pendingCalls s")
       (auto simp: routes_inv_def routes_fetchRoutes_end_Inr simulateRouteCalculation_def)
qed

lemma routes_inv_foldl: "routes_inv s \<Longrightarrow> routes_inv (foldl step s evs)"
  by (induction evs arbitrary: s) (simp_all add: routes_inv_step)

lemma routes_inv_run: "routes_inv (run evs)"
  unfolding run_def by (rule routes_inv_foldl) (simp add: routes_inv_def initialState_def)

lemma two_requests:
  "run [Navigate firstRequest, Navigate secondRequest]
     = \<lparr>page = initialState\<lparr>emergencyType := Some ''trauma'',
            userLocation := Some \<lparr>latitude = None, longitude = None, address = ''99 Lake St''\<rparr>\<rparr>,
        pendingCalls = [(\<lparr>latitude = None, longitude = None, address = ''12 Hill Rd''\<rparr>, ''cardiac''),
                        (\<lparr>latitude = None, longitude = None, address = ''99 Lake St''\<rparr>, ''trauma'')]\<rparr>"
  by (simp add: run_def firstRequest_def secondRequest_def effect_def searchParams_get_def
      truthy_def locationData_def fetchRoutes_begin_def initialState_def)

section \<open>The claims\<close>

text \<open>
  C1. Whatever requests are submitted and in whatever order their computations complete,
  when the routes the page holds are not empty, exactly one of them has
  \<open>isPrimary = True\<close>, it is the first one, and it is the route the page shows as primary.
\<close>

theorem C1_primary_is_first_and_unique:
  assumes "routes (page (run evs)) \<noteq> []"
  shows "isPrimary (hd (routes (page (run evs))))
       \<and> length (filter isPrimary (routes (page (run evs)))) = 1
       \<and> primaryRoute (page (run evs)) = Some (hd (routes (page (run evs))))"
  using assms routes_inv_run [of evs]
  by (auto simp: routes_inv_def simulateRouteCalculation_def primaryRoute_def)

theorem C1_witness:
  "routes (page (run [Navigate [(''address'', ''12 Hill Rd''), (''emergencyType'', ''cardiac'')],
                       TimerFires])) \<noteq> []
   \<and> isPrimary (hd (routes (page (run [Navigate [(''address'', ''12 Hill Rd''),
                       (''emergencyType'', ''cardiac'')], TimerFires]))))
   \<and> length (filter isPrimary (routes (page (run [Navigate [(''address'', ''12 Hill Rd''),
                       (''emergencyType'', ''cardiac'')], TimerFires])))) = 1"
proof -
  have h: "routes (page (run [Navigate [(''address'', ''12 Hill Rd''),
              (''emergencyType'', ''cardiac'')], TimerFires])) \<noteq> []"
    by (simp add: run_def effect_def searchParams_get_def truthy_def locationData_def
        fetchRoutes_begin_def routes_fetchRoutes_end_Inr simulateRouteCalculation_def)
  show ?thesis using h C1_primary_is_first_and_unique [OF h] by simp
qed


text \<open>
  C3. When the awaited route computation resolves to an empty list, the page ends on the
  error screen with the message for no routes and the toast \<^verbatim>\<open>No Routes\<close>; when it
  rejects, the page ends on the error screen with the message for a failed computation
  and the toast \<^verbatim>\<open>Routing Error\<close>. The two outcomes differ.
\<close>

theorem C3_empty_result_is_not_failure:
  assumes "length calculatedRoutes = 0"
  shows "render (fetchRoutes_end (Inr calculatedRoutes) st)
           = ErrorView ''Could not find any nearby medical facilities or routes.''
       \<and> routes (fetchRoutes_end (Inr calculatedRoutes) st) = []
       \<and> render (fetchRoutes_end (Inl err) st')
           = ErrorView ''Failed to calculate routes. Please try again later.''
       \<and> render (fetchRoutes_end (Inr calculatedRoutes) st) \<noteq> render (fetchRoutes_end (Inl err) st')
       \<and> map title (toasts (fetchRoutes_end (Inr calculatedRoutes) st))
           = map title (toasts st) @ [''No Routes'']
       \<and> map title (toasts (fetchRoutes_end (Inl err) st'))
           = map title (toasts st') @ [''Routing Error'']"
  using assms by (simp add: fetchRoutes_end_def render_def toast_def truthy_def)

theorem C3_witness:
  "length ([] :: RouteInfo list) = 0
   \<and> render (fetchRoutes_end (Inr []) (fetchRoutes_begin initialState))
       = ErrorView ''Could not find any nearby medical facilities or routes.''
   \<and> render (fetchRoutes_end (Inl (JsError ''timeout'')) (fetchRoutes_begin initialState))
       = ErrorView ''Failed to calculate routes. Please try again later.''"
  using C3_empty_result_is_not_failure [of "[]" "fetchRoutes_begin initialState"
      "JsError ''timeout''" "fetchRoutes_begin initialState"]
  by simp

text \<open>
  C4. The request with latitude 34.0522, longitude -118.2437 and emergency type
  \<^verbatim>\<open>cardiac\<close>, once its computation has completed, shows the routes (no error, nothing
  pending): the routes to \<^verbatim>\<open>hosp1\<close>, \<^verbatim>\<open>hosp2\<close>, \<^verbatim>\<open>hosp3\<close> in this order, the first
  one primary, with distances of 3200, 4100 and 5500 metres, durations of 480, 600 and 720
  seconds and light, moderate and light traffic.
\<close>

theorem C4_cardiac_scenario:
  "render (page (run [Navigate cardiacRequest, TimerFires]))
     = RoutesView (Some (hd (routes (page (run [Navigate cardiacRequest, TimerFires])))))
         (tl (routes (page (run [Navigate cardiacRequest, TimerFires]))))
   \<and> map (\<lambda>r. h_id (hospital r)) (routes (page (run [Navigate cardiacRequest, TimerFires])))
       = [''hosp1'', ''hosp2'', ''hosp3'']
   \<and> map isPrimary (routes (page (run [Navigate cardiacRequest, TimerFires])))
       = [True, False, False]
   \<and> map distanceMeters (routes (page (run [Navigate cardiacRequest, TimerFires])))
       = [Some 3200, Some 4100, Some 5500]
   \<and> map durationSeconds (routes (page (run [Navigate cardiacRequest, TimerFires])))
       = [Some 480, Some 600, Some 720]
   \<and> map trafficStatus (routes (page (run [Navigate cardiacRequest, TimerFires])))
       = [Some ''Light traffic'', Some ''Moderate traffic'', Some ''Light traffic'']
   \<and> error (page (run [Navigate cardiacRequest, TimerFires])) = None
   \<and> emergencyType (page (run [Navigate cardiacRequest, TimerFires])) = Some ''cardiac''
   \<and> pendingCalls (run [Navigate cardiacRequest, TimerFires]) = []"
  by (simp add: run_def cardiacRequest_def effect_def searchParams_get_def truthy_def
      locationData_def fetchRoutes_begin_def fetchRoutes_end_def initialState_def render_def
      primaryRoute_def alternativeRoutes_def
      simulateRouteCalculation_def SIMULATED_HOSPITALS_def
      distanceMeters_def durationSeconds_def read_km read_mins)

text \<open>
  C5, as the code has it. The location is missing exactly when \<^verbatim>\<open>lat\<close> or \<^verbatim>\<open>lng\<close> is
  absent or empty and the address is absent or empty; then, given an emergency type, the
  effect ends with the error \<^verbatim>\<open>User location is missing.\<close>, starts no computation and
  stores no location. In every other case there is a location, and nothing in it is
  validated: with \<^verbatim>\<open>lat\<close> and \<^verbatim>\<open>lng\<close> both non-empty its coordinates are what
  \<^verbatim>\<open>parseFloat\<close> returns for them, finite and in range or not; otherwise its address is
  the non-empty address as given, untrimmed.
\<close>

theorem C5_location_missing_exactly_without_parameters:
  "(locationData lat lng addr = None)
     = ((truthy lat = None \<or> truthy lng = None) \<and> truthy addr = None)
   \<and> (truthy (searchParams_get sp ''emergencyType'') = Some ty
        \<and> locationData (searchParams_get sp ''lat'') (searchParams_get sp ''lng'')
             (searchParams_get sp ''address'') = None
      \<longrightarrow> effect sp st =
            (st\<lparr>emergencyType := Some ty, error := Some ''User location is missing.'',
                isLoading := False,
                toasts := toasts st @ [\<lparr>title = ''Error'',
                  description = ''Location missing. Please go back.'',
                  variant = Some ''destructive''\<rparr>]\<rparr>, None)
          \<and> render (fst (effect sp st)) = ErrorView ''User location is missing.''
          \<and> userLocation (fst (effect sp st)) = userLocation st)
   \<and> (truthy lat = Some la \<and> truthy lng = Some lo
      \<longrightarrow> map_option latitude (locationData lat lng addr) = Some (Some (parseFloat la))
          \<and> map_option longitude (locationData lat lng addr) = Some (Some (parseFloat lo)))
   \<and> ((truthy lat = None \<or> truthy lng = None) \<and> truthy addr = Some a
      \<longrightarrow> locationData lat lng addr = Some \<lparr>latitude = None, longitude = None, address = a\<rparr>)"
  by (auto simp: locationData_def effect_def toast_def render_def truthy_def
      split: option.splits)

theorem C5_witness:
  "truthy (searchParams_get [(''lat'', ''34.0522''), (''address'', []), (''emergencyType'', ''cardiac'')]
      ''emergencyType'') = Some ''cardiac''
   \<and> locationData (Some ''34.0522'') None (Some []) = None
   \<and> render (fst (effect [(''lat'', ''34.0522''), (''address'', []), (''emergencyType'', ''cardiac'')]
        initialState)) = ErrorView ''User location is missing.''
   \<and> truthy (Some ''abc'') = Some ''abc'' \<and> truthy (Some ''xyz'') = Some ''xyz''
   \<and> map_option latitude (locationData (Some ''abc'') (Some ''xyz'') None) = Some (Some NaN)
   \<and> truthy (Some ''   '') = Some ''   ''
   \<and> locationData None None (Some ''   '')
       = Some \<lparr>latitude = None, longitude = None, address = ''   ''\<rparr>"
proof -
  have h: "truthy (searchParams_get [(''lat'', ''34.0522''), (''address'', []),
      (''emergencyType'', ''cardiac'')] ''emergencyType'') = Some ''cardiac''"
    by (simp add: searchParams_get_def truthy_def)
  have g: "searchParams_get [(''lat'', ''34.0522''), (''address'', []),
      (''emergencyType'', ''cardiac'')] ''lat'' = Some ''34.0522''"
    "searchParams_get [(''lat'', ''34.0522''), (''address'', []),
      (''emergencyType'', ''cardiac'')] ''lng'' = None"
    "searchParams_get [(''lat'', ''34.0522''), (''address'', []),
      (''emergencyType'', ''cardiac'')] ''address'' = Some []"
    by (simp_all add: searchParams_get_def)
  have t: "truthy None = None" "truthy (Some []) = None"
    "truthy (Some ''abc'') = Some ''abc''" "truthy (Some ''xyz'') = Some ''xyz''"
    "truthy (Some ''   '') = Some ''   ''"
    by (simp_all add: truthy_def)
  have a: "locationData (Some ''34.0522'') None (Some []) = None
     \<and> render (fst (effect [(''lat'', ''34.0522''), (''address'', []), (''emergencyType'', ''cardiac'')]
        initialState)) = ErrorView ''User location is missing.''"
    using h t C5_location_missing_exactly_without_parameters
      [of "Some ''34.0522''" None "Some []"
          "[(''lat'', ''34.0522''), (''address'', []), (''emergencyType'', ''cardiac'')]"
          "''cardiac''" initialState]
    by (simp add: g render_def truthy_def)
  have b: "map_option latitude (locationData (Some ''abc'') (Some ''xyz'') None) = Some (Some NaN)"
    using t C5_location_missing_exactly_without_parameters [of "Some ''abc''" "Some ''xyz''" None _ _ _ "''abc''" "''xyz''"]
    by (simp add: parse_words)
  have c: "locationData None None (Some ''   '')
       = Some \<lparr>latitude = None, longitude = None, address = ''   ''\<rparr>"
    using t C5_location_missing_exactly_without_parameters [of None None "Some ''   ''" _ _ _ _ _ "''   ''"]
    by simp
  show ?thesis using h t a b c by simp
qed

text \<open>
  C5 as stated fails. Two parameters that are not numbers give a location whose
  coordinates are \<open>NaN\<close>; two numbers out of range give a location with these coordinates;
  an address of three spaces, with no coordinates, gives a location with that address.
\<close>

theorem C5_counterexample:
  "locationData (Some ''abc'') (Some ''xyz'') None
     = Some \<lparr>latitude = Some NaN, longitude = Some NaN, address = ''Coords: NaN, NaN''\<rparr>
   \<and> \<not> validCoordinates \<lparr>latitude = Some NaN, longitude = Some NaN, address = ''Coords: NaN, NaN''\<rparr>
   \<and> locationData (Some ''999'') (Some ''-999'') None
     = Some \<lparr>latitude = Some (Finite 999), longitude = Some (Finite (- 999)),
             address = ''Coords: 999.0000, -999.0000''\<rparr>
   \<and> \<not> validCoordinates \<lparr>latitude = Some (Finite 999), longitude = Some (Finite (- 999)),
             address = ''Coords: 999.0000, -999.0000''\<rparr>
   \<and> locationData None None (Some ''   '')
     = Some \<lparr>latitude = None, longitude = None, address = ''   ''\<rparr>"
  by (simp add: locationData_def truthy_def parse_words parse_999 fixed_999 fixed_NaN
      validCoordinates_def inRange_def)

text \<open>
  C6. When the query has no emergency type (the parameter is absent or empty), the effect
  stops at once with the error \<^verbatim>\<open>Emergency type is missing.\<close>: it starts no computation,
  leaves the stored location as it was, and its result is the same whatever the location
  parameters are. The error differs from the one for a missing location,
  \<^verbatim>\<open>User location is missing.\<close>, which needs an emergency type to be reached.
\<close>

theorem C6_missing_category_rejected_first:
  assumes "truthy (searchParams_get sp ''emergencyType'') = None"
  shows "effect sp st =
           (st\<lparr>error := Some ''Emergency type is missing.'', isLoading := False,
               toasts := toasts st @ [\<lparr>title = ''Error'',
                 description = ''Emergency type missing. Please go back.'',
                 variant = Some ''destructive''\<rparr>]\<rparr>, None)
       \<and> render (fst (effect sp st)) = ErrorView ''Emergency type is missing.''
       \<and> userLocation (fst (effect sp st)) = userLocation st
       \<and> (truthy (searchParams_get sp2 ''emergencyType'') = None \<longrightarrow> effect sp2 st = effect sp st)
       \<and> (truthy (searchParams_get sp' ''emergencyType'') = Some ty
            \<and> locationData (searchParams_get sp' ''lat'') (searchParams_get sp' ''lng'')
                 (searchParams_get sp' ''address'') = None
          \<longrightarrow> render (fst (effect sp' st')) = ErrorView ''User location is missing.''
            \<and> render (fst (effect sp' st')) \<noteq> render (fst (effect sp st)))"
  using assms by (simp add: effect_def toast_def render_def truthy_def)

theorem C6_witness:
  "truthy (searchParams_get [(''lat'', ''34.0522''), (''lng'', ''-118.2437'')] ''emergencyType'') = None
   \<and> truthy (searchParams_get [(''address'', ''12 Hill Rd'')] ''emergencyType'') = None
   \<and> truthy (searchParams_get [(''emergencyType'', ''cardiac'')] ''emergencyType'') = Some ''cardiac''
   \<and> locationData (searchParams_get [(''emergencyType'', ''cardiac'')] ''lat'')
        (searchParams_get [(''emergencyType'', ''cardiac'')] ''lng'')
        (searchParams_get [(''emergencyType'', ''cardiac'')] ''address'') = None
   \<and> render (fst (effect [(''lat'', ''34.0522''), (''lng'', ''-118.2437'')] initialState))
       = ErrorView ''Emergency type is missing.''
   \<and> effect [(''address'', ''12 Hill Rd'')] initialState
       = effect [(''lat'', ''34.0522''), (''lng'', ''-118.2437'')] initialState
   \<and> render (fst (effect [(''emergencyType'', ''cardiac'')] initialState))
       = ErrorView ''User location is missing.''"
proof -
  have h: "truthy (searchParams_get [(''lat'', ''34.0522''), (''lng'', ''-118.2437'')]
             ''emergencyType'') = None"
    by (simp add: searchParams_get_def truthy_def)
  have h2: "truthy (searchParams_get [(''address'', ''12 Hill Rd'')] ''emergencyType'') = None"
    by (simp add: searchParams_get_def truthy_def)
  have h3: "truthy (searchParams_get [(''emergencyType'', ''cardiac'')] ''emergencyType'')
             = Some ''cardiac''"
    by (simp add: searchParams_get_def truthy_def)
  have h4: "locationData (searchParams_get [(''emergencyType'', ''cardiac'')] ''lat'')
        (searchParams_get [(''emergencyType'', ''cardiac'')] ''lng'')
        (searchParams_get [(''emergencyType'', ''cardiac'')] ''address'') = None"
    by (simp add: searchParams_get_def truthy_def locationData_def)
  show ?thesis
    using h h2 h3 h4
      C6_missing_category_rejected_first [OF h, of initialState "[(''address'', ''12 Hill Rd'')]"
        "[(''emergencyType'', ''cardiac'')]" "''cardiac''" initialState]
    by (simp add: render_def truthy_def)
qed

text \<open>
  C7. When both coordinate parameters parse to finite numbers within \<open>[-90, 90]\<close> and
  \<open>[-180, 180]\<close>, the location holds these two numbers; with no address (absent or
  empty) its label is \<^verbatim>\<open>Coords:\<close> followed by the two numbers rounded to 4 decimal
  places, and with an address the label is that address.
\<close>

theorem C7_coordinate_location_label:
  assumes "parseFloat la = Finite x" "- 90 \<le> x" "x \<le> 90"
      and "parseFloat lo = Finite y" "- 180 \<le> y" "y \<le> 180"
  shows "locationData (Some la) (Some lo) None
           = Some \<lparr>latitude = Some (Finite x), longitude = Some (Finite y),
                   address = ''Coords: '' @ roundedTo4 x @ '', '' @ roundedTo4 y\<rparr>
       \<and> locationData (Some la) (Some lo) (Some [])
           = Some \<lparr>latitude = Some (Finite x), longitude = Some (Finite y),
                   address = ''Coords: '' @ roundedTo4 x @ '', '' @ roundedTo4 y\<rparr>
       \<and> (a \<noteq> [] \<longrightarrow> locationData (Some la) (Some lo) (Some a)
           = Some \<lparr>latitude = Some (Finite x), longitude = Some (Finite y), address = a\<rparr>)"
proof -
  have tx: "toFixed 4 (Finite x) = roundedTo4 x"
    using assms(2,3) by (intro toFixed_4_rounded) (simp add: abs_if)
  have ty: "toFixed 4 (Finite y) = roundedTo4 y"
    using assms(5,6) by (intro toFixed_4_rounded) (simp add: abs_if)
  have la: "truthy (Some la) = Some la" and lo: "truthy (Some lo) = Some lo"
    using assms(1,4) by (simp_all add: truthy_parsed)
  show ?thesis
    using assms(1,4) tx ty la lo by (simp add: locationData_def) (simp add: truthy_def)
qed

theorem C7_witness:
  "locationData (Some ''34.0522'') (Some ''-118.2437'') None
     = Some \<lparr>latitude = Some (Finite (1198105275243325 / 35184372088832)),
             longitude = Some (Finite (- (8320660675920449 / 70368744177664))),
             address = ''Coords: 34.0522, -118.2437''\<rparr>
   \<and> locationData (Some ''34.0522'') (Some ''-118.2437'') (Some ''12 Hill Rd'')
     = Some \<lparr>latitude = Some (Finite (1198105275243325 / 35184372088832)),
             longitude = Some (Finite (- (8320660675920449 / 70368744177664))),
             address = ''12 Hill Rd''\<rparr>"
proof -
  have r1: "- 90 \<le> (1198105275243325 / 35184372088832 :: rat)"
    "(1198105275243325 / 35184372088832 :: rat) \<le> 90"
    by simp_all
  have r2: "- 180 \<le> (- (8320660675920449 / 70368744177664) :: rat)"
    "(- (8320660675920449 / 70368744177664) :: rat) \<le> 180"
    by simp_all
  show ?thesis
    using C7_coordinate_location_label [OF parse_lat r1 parse_lng r2, of "''12 Hill Rd''"]
    by (simp add: rounded_lat rounded_lng)
qed

text \<open>
  C8, as the code has it. Nothing is cancelled: when the oldest pending computation
  completes, whatever other computations are still pending, its \<^verbatim>\<open>fetchRoutes\<close>
  continues on the current state, stores its routes and ends the loading state.
\<close>

theorem C8_every_completion_leaves_loading:
  assumes "pendingCalls s = (loc, ty) # cs"
  shows "page (step s TimerFires) = fetchRoutes_end (Inr (simulateRouteCalculation loc ty)) (page s)
       \<and> isLoading (page (step s TimerFires)) = False
       \<and> routes (page (step s TimerFires)) = simulateRouteCalculation loc ty
       \<and> render (page (step s TimerFires)) \<noteq> LoadingView
       \<and> pendingCalls (step s TimerFires) = cs"
  using assms
  by (simp add: fetchRoutes_end_def render_def simulateRouteCalculation_def split: option.splits)

theorem C8_witness:
  "pendingCalls (run [Navigate firstRequest, Navigate secondRequest])
     = (\<lparr>latitude = None, longitude = None, address = ''12 Hill Rd''\<rparr>, ''cardiac'')
       # [(\<lparr>latitude = None, longitude = None, address = ''99 Lake St''\<rparr>, ''trauma'')]
   \<and> isLoading (page (step (run [Navigate firstRequest, Navigate secondRequest]) TimerFires)) = False
   \<and> pendingCalls (step (run [Navigate firstRequest, Navigate secondRequest]) TimerFires)
       = [(\<lparr>latitude = None, longitude = None, address = ''99 Lake St''\<rparr>, ''trauma'')]"
proof -
  have h: "pendingCalls (run [Navigate firstRequest, Navigate secondRequest])
     = (\<lparr>latitude = None, longitude = None, address = ''12 Hill Rd''\<rparr>, ''cardiac'')
       # [(\<lparr>latitude = None, longitude = None, address = ''99 Lake St''\<rparr>, ''trauma'')]"
    by (simp add: two_requests)
  show ?thesis
    using h C8_every_completion_leaves_loading [OF h] by simp
qed

text \<open>
  C8 as stated fails. A second request is submitted while the first is loading; the page
  shows the spinner and two computations are pending. When the first one completes, the
  page leaves the spinner, with the emergency type of the second request, while the
  computation of the second request is still pending.
\<close>

theorem C8_counterexample:
  "render (page (run [Navigate firstRequest, Navigate secondRequest])) = LoadingView
   \<and> pendingCalls (run [Navigate firstRequest, Navigate secondRequest])
       = [(\<lparr>latitude = None, longitude = None, address = ''12 Hill Rd''\<rparr>, ''cardiac''),
          (\<lparr>latitude = None, longitude = None, address = ''99 Lake St''\<rparr>, ''trauma'')]
   \<and> render (page (run [Navigate firstRequest, Navigate secondRequest, TimerFires])) \<noteq> LoadingView
   \<and> pendingCalls (run [Navigate firstRequest, Navigate secondRequest, TimerFires])
       = [(\<lparr>latitude = None, longitude = None, address = ''99 Lake St''\<rparr>, ''trauma'')]
   \<and> emergencyType (page (run [Navigate firstRequest, Navigate secondRequest, TimerFires]))
       = Some ''trauma''"
proof -
  have r: "run [Navigate firstRequest, Navigate secondRequest, TimerFires]
        = step (run [Navigate firstRequest, Navigate secondRequest]) TimerFires"
    by (simp add: run_def)
  show ?thesis
    unfolding r two_requests
    by (simp add: render_def initialState_def fetchRoutes_end_def truthy_def
        simulateRouteCalculation_def)
qed

text \<open>
  C9, as the code has it. Every route \<^verbatim>\<open>simulateRouteCalculation\<close> produces carries its
  distance and its time as display strings, in kilometres and in minutes; the quantities
  they state are not negative; the cards show the two strings as they are.
\<close>

theorem C9_routes_carry_display_strings:
  "map distance (simulateRouteCalculation location category) = [''3.2 km'', ''4.1 km'', ''5.5 km'']
   \<and> map time (simulateRouteCalculation location category) = [''8 mins'', ''10 mins'', ''12 mins'']
   \<and> map (\<lambda>r. readQuantity ''km'' (distance r)) (simulateRouteCalculation location category)
       = [Some (16 / 5), Some (41 / 10), Some (11 / 2)]
   \<and> map (\<lambda>r. readQuantity ''mins'' (time r)) (simulateRouteCalculation location category)
       = [Some 8, Some 10, Some 12]
   \<and> cardDistance (primaryCard r) = distance r \<and> estTime (primaryCard r) = time r
   \<and> cardDistance (alternativeCard r) = distance r \<and> estTime (alternativeCard r) = time r"
  by (simp add: simulateRouteCalculation_def read_km read_mins primaryCard_def alternativeCard_def)

text \<open>
  C9 as stated fails. The first route produced for a request holds the distance
  \<^verbatim>\<open>3.2 km\<close> and the time \<^verbatim>\<open>8 mins\<close>: neither field is a bare number of metres or of
  seconds.
\<close>

theorem C9_counterexample:
  "\<not> carriesSIValues (hd (simulateRouteCalculation
       \<lparr>latitude = None, longitude = None, address = ''12 Hill Rd''\<rparr> ''cardiac''))
   \<and> distance (hd (simulateRouteCalculation
       \<lparr>latitude = None, longitude = None, address = ''12 Hill Rd''\<rparr> ''cardiac'')) = ''3.2 km''
   \<and> time (hd (simulateRouteCalculation
       \<lparr>latitude = None, longitude = None, address = ''12 Hill Rd''\<rparr> ''cardiac'')) = ''8 mins''"
  by (simp add: simulateRouteCalculation_def carriesSIValues_def not_bare)

text \<open>
  C10. The list \<^verbatim>\<open>simulateRouteCalculation\<close> returns is the same for any two locations
  and any two emergency categories: the three routes \<^verbatim>\<open>route1\<close>, \<^verbatim>\<open>route2\<close>,
  \<^verbatim>\<open>route3\<close>, in this order, the first one primary.
\<close>

theorem C10_output_independent_of_inputs:
  "simulateRouteCalculation location1 emergencyType1 = simulateRouteCalculation location2 emergencyType2
   \<and> map r_id (simulateRouteCalculation location1 emergencyType1) = [''route1'', ''route2'', ''route3'']
   \<and> map isPrimary (simulateRouteCalculation location1 emergencyType1) = [True, False, False]"
  by (simp add: simulateRouteCalculation_def)

end
